theory Spec2Isabelle
  imports Complex_Main
begin

section \<open>The log-bilinear language model of lbl.py\<close>

text \<open>
  A shallow embedding of \<^verbatim>\<open>src/lbl.py\<close> (Python 2, NumPy, Theano). Python integers are
  \<open>int\<close>; sizes, word ids and loop indices, which are never negative, are \<open>nat\<close>.
  Floating-point numbers are idealised: a finite float is a real number (rounding, overflow
  and the sign of zero are left out), and the special values the code produces on purpose,
  \<^verbatim>\<open>np.inf\<close> and the NaN of \<^verbatim>\<open>np.mean([])\<close>, are values of their own. Every exception of the
  source is a value of the type \<open>error\<close>, and a function that can raise returns
  \<open>error + 'a\<close>.
\<close>

subsection \<open>Exceptions\<close>

datatype error =
    NameError string
  | UnboundLocalError string
  | ValueError
  | ZeroDivisionError
  | TypeError
  | NotImplementedError
  | IndexError
  | ShapeError

subsection \<open>Floats\<close>

datatype npfloat = Num real | PosInf | NegInf | NaN

fun fneg :: "npfloat \<Rightarrow> npfloat" where
  "fneg (Num r) = Num (- r)"
| "fneg PosInf = NegInf"
| "fneg NegInf = PosInf"
| "fneg NaN = NaN"

fun fadd :: "npfloat \<Rightarrow> npfloat \<Rightarrow> npfloat" where
  "fadd (Num a) (Num b) = Num (a + b)"
| "fadd NaN _ = NaN"
| "fadd _ NaN = NaN"
| "fadd PosInf NegInf = NaN"
| "fadd NegInf PosInf = NaN"
| "fadd PosInf _ = PosInf"
| "fadd _ PosInf = PosInf"
| "fadd NegInf _ = NegInf"
| "fadd _ NegInf = NegInf"

text \<open>The sign of a float: \<open>Some 1\<close>, \<open>Some 0\<close>, \<open>Some (-1)\<close>, and \<open>None\<close> for NaN.\<close>

fun fsign :: "npfloat \<Rightarrow> int option" where
  "fsign (Num r) = Some (if r < 0 then - 1 else if r = 0 then 0 else 1)"
| "fsign PosInf = Some 1"
| "fsign NegInf = Some (- 1)"
| "fsign NaN = None"

fun fmul :: "npfloat \<Rightarrow> npfloat \<Rightarrow> npfloat" where
  "fmul (Num a) (Num b) = Num (a * b)"
| "fmul x y =
     (case (fsign x, fsign y) of
        (Some sx, Some sy) \<Rightarrow>
          (if sx * sy = 0 then NaN else if 0 < sx * sy then PosInf else NegInf)
      | _ \<Rightarrow> NaN)"

text \<open>Division by a finite, non-zero constant (\<^verbatim>\<open>learning_rate /= 2.0\<close>).\<close>

fun fhalf :: "npfloat \<Rightarrow> npfloat" where
  "fhalf (Num r) = Num (r / 2)"
| "fhalf x = x"

text \<open>Comparisons: every comparison with NaN is false.\<close>

fun flt :: "npfloat \<Rightarrow> npfloat \<Rightarrow> bool" where
  "flt (Num a) (Num b) = (a < b)"
| "flt NaN _ = False"
| "flt _ NaN = False"
| "flt PosInf _ = False"
| "flt _ NegInf = False"
| "flt _ PosInf = True"
| "flt NegInf _ = True"

definition fgt :: "npfloat \<Rightarrow> npfloat \<Rightarrow> bool" where
  "fgt x y = flt y x"



text \<open>
  \<^verbatim>\<open>np.mean\<close> of a Python list and \<^verbatim>\<open>T.mean\<close> of a vector: the sum divided by the number
  of elements. For no element it is 0.0 / 0, which NumPy evaluates to NaN (with a warning,
  not an exception).
\<close>

fun fdiv_count :: "npfloat \<Rightarrow> nat \<Rightarrow> npfloat" where
  "fdiv_count (Num r) n = (if n = 0 then (if r = 0 then NaN else if 0 < r then PosInf else NegInf)
                           else Num (r / real n))"
| "fdiv_count x n = x"

definition np_mean :: "npfloat list \<Rightarrow> npfloat" where
  "np_mean xs = fdiv_count (foldl fadd (Num 0) xs) (length xs)"

text \<open>\<^verbatim>\<open>np.power(2.0, x)\<close>.\<close>

fun np_power2 :: "npfloat \<Rightarrow> npfloat" where
  "np_power2 (Num r) = Num (2 powr r)"
| "np_power2 PosInf = PosInf"
| "np_power2 NegInf = Num 0"
| "np_power2 NaN = NaN"

subsection \<open>Python ranges and slices\<close>

text \<open>\<^verbatim>\<open>xrange(n)\<close> for a Python integer \<open>n\<close>: empty when \<open>n \<le> 0\<close>.\<close>

definition xrange :: "int \<Rightarrow> nat list" where
  "xrange n = [0..<nat n]"

text \<open>
  The positions that the slice \<^verbatim>\<open>xs[a:b]\<close> reads in a sequence of length \<open>n\<close>: a negative
  bound counts from the end, and both bounds are clamped to the sequence.
\<close>

definition slice_bound :: "nat \<Rightarrow> int \<Rightarrow> nat" where
  "slice_bound n k = (if k < 0 then nat (max (k + int n) 0) else min (nat k) n)"

definition slice_positions :: "nat \<Rightarrow> int \<Rightarrow> int \<Rightarrow> nat list" where
  "slice_positions n a b = [slice_bound n a..<slice_bound n b]"

definition py_slice :: "'a list \<Rightarrow> int \<Rightarrow> int \<Rightarrow> 'a list" where
  "py_slice xs a b = map (\<lambda>j. xs ! j) (slice_positions (length xs) a b)"

subsection \<open>Instance generation\<close>

text \<open>
  Modelled from the spec: the class \<^verbatim>\<open>Dictionary\<close> of the module \<^verbatim>\<open>dataset\<close>, which is
  not among the sources. A vocabulary maps the tokens it knows to integer ids, and
  \<^verbatim>\<open>doc_words_to_ids(words, update_dict=False, unk='<unk>')\<close> maps every token to its id, a
  token it does not know to the id of the unknown word, without changing the vocabulary.
\<close>

record dictionary =
  token_ids :: "string \<rightharpoonup> nat"
  unk_id :: nat
  vocab_size :: nat

definition doc_words_to_ids :: "dictionary \<Rightarrow> string list \<Rightarrow> nat list" where
  "doc_words_to_ids vocab ws =
     map (\<lambda>w. case token_ids vocab w of Some i \<Rightarrow> i | None \<Rightarrow> unk_id vocab) ws"

text \<open>
  \<^verbatim>\<open>zip(*iterables)\<close> (\<^verbatim>\<open>future_builtins.zip\<close>, that is \<^verbatim>\<open>itertools.izip\<close>): the tuples of the
  first, second, ... elements, until one of the iterables is exhausted; nothing for no
  iterable at all.
\<close>

function zip_star :: "'a list list \<Rightarrow> 'a list list" where
  "zip_star xss =
     (if xss = [] \<or> [] \<in> set xss then [] else map hd xss # zip_star (map tl xss))"
  by pat_completeness auto
termination
proof (relation "measure (\<lambda>xss. length (hd xss))")
  show "wf (measure (\<lambda>xss::'a list list. length (hd xss)))" by simp
next
  fix xss :: "'a list list"
  assume a: "\<not> (xss = [] \<or> [] \<in> set xss)"
  then have "hd xss \<in> set xss" by simp
  with a have "hd xss \<noteq> []" by metis
  moreover from a have "hd (map tl xss) = tl (hd xss)" by (simp add: hd_map)
  ultimately show "(map tl xss, xss) \<in> measure (\<lambda>xss. length (hd xss))" by simp
qed

declare zip_star.simps [simp del]

text \<open>
  The windows of one sentence (lines 124-126): the sentence between \<open>context_sz\<close> start
  and \<open>context_sz\<close> end markers, as ids, and the tuples of
  \<^verbatim>\<open>zip(*(sentence[i:] for i in xrange(context_sz+1)))\<close>.
\<close>

definition pad_sentence :: "nat \<Rightarrow> string list \<Rightarrow> string list" where
  "pad_sentence context_sz sentence =
     replicate context_sz ''<s>'' @ sentence @ replicate context_sz ''</s>''"

definition sentence_ids :: "dictionary \<Rightarrow> nat \<Rightarrow> string list \<Rightarrow> nat list" where
  "sentence_ids vocab context_sz sentence =
     doc_words_to_ids vocab (pad_sentence context_sz sentence)"

definition windows :: "nat \<Rightarrow> nat list \<Rightarrow> nat list list" where
  "windows context_sz ids = zip_star (map (\<lambda>i. drop i ids) (xrange (int context_sz + 1)))"

text \<open>
  The loop of \<^verbatim>\<open>make_instances\<close> over the corpus, with its two accumulators:
  \<^verbatim>\<open>data.append(instance[:-1])\<close> and \<^verbatim>\<open>labels.append(instance[-1])\<close> for every window.
\<close>

fun instances_loop ::
  "dictionary \<Rightarrow> nat \<Rightarrow> string list list \<Rightarrow> nat list list \<times> nat list \<Rightarrow> nat list list \<times> nat list"
where
  "instances_loop vocab context_sz [] (data, labels) = (data, labels)"
| "instances_loop vocab context_sz (sentence # corpus) (data, labels) =
     (let ws = windows context_sz (sentence_ids vocab context_sz sentence)
      in instances_loop vocab context_sz corpus (data @ map butlast ws, labels @ map last ws))"

definition make_instances ::
  "string list list \<Rightarrow> dictionary \<Rightarrow> nat \<Rightarrow> nat list list \<times> nat list" where
  "make_instances corpus vocab context_sz = instances_loop vocab context_sz corpus ([], [])"

subsection \<open>The model\<close>

text \<open>
  The four parameter tensors of \<^verbatim>\<open>LogBilinearLanguageModel\<close>: \<open>R\<close> and \<open>Q\<close> of shape
  \<open>(V, K)\<close>, \<open>C\<close> of shape \<open>(context_sz, K, K)\<close>, and the single row of \<open>b\<close>, of shape
  \<open>(1, V)\<close>. Their initial values are random and are not modelled.
\<close>

record lbl_params =
  param_R :: "real list list"
  param_Q :: "real list list"
  param_C :: "real list list list"
  param_b :: "real list"

text \<open>\<^verbatim>\<open>self.r_w = self.R[context]\<close>, of shape \<open>(B, context_sz, K)\<close> for a batch of \<open>B\<close> contexts.\<close>

definition r_w :: "lbl_params \<Rightarrow> nat list list \<Rightarrow> real list list list" where
  "r_w P context_batch = map (map (\<lambda>w. param_R P ! w)) context_batch"

text \<open>
  \<^verbatim>\<open>self.q_hat = T.tensordot(self.C, self.r_w, axes=[[0,1], [1,2]])\<close>: the axes 0 and 1 of
  \<open>C\<close> are summed against the axes 1 and 2 of \<open>r_w\<close>, which leaves the axis 2 of \<open>C\<close> and
  then the axis 0 of \<open>r_w\<close>: shape \<open>(K, B)\<close>.
\<close>

definition q_hat :: "lbl_params \<Rightarrow> nat \<Rightarrow> nat \<Rightarrow> nat list list \<Rightarrow> real list list" where
  "q_hat P K context_sz context_batch =
     map (\<lambda>k. map (\<lambda>n. \<Sum>i\<leftarrow>[0..<context_sz]. \<Sum>j\<leftarrow>[0..<K].
                          param_C P ! i ! j ! k * r_w P context_batch ! n ! i ! j)
                 [0..<length context_batch])
         [0..<K]"

text \<open>
  \<^verbatim>\<open>self.s = T.dot(self.Q, self.q_hat) + T.reshape(self.b, (V,1))\<close>, of shape \<open>(V, B)\<close>: the
  row of a vocabulary word holds its scores against the contexts of the batch.
\<close>

definition s_wh :: "lbl_params \<Rightarrow> nat \<Rightarrow> nat \<Rightarrow> nat \<Rightarrow> nat list list \<Rightarrow> real list list" where
  "s_wh P V K context_sz context_batch =
     map (\<lambda>v. map (\<lambda>n. (\<Sum>k\<leftarrow>[0..<K]. param_Q P ! v ! k * q_hat P K context_sz context_batch ! k ! n)
                        + param_b P ! v)
                 [0..<length context_batch])
         [0..<V]"

text \<open>
  \<^verbatim>\<open>T.nnet.softmax\<close> of a matrix is the softmax of each of its rows:
  \<open>softmax(x)[i][j] = exp(x[i][j]) / sum_k exp(x[i][k])\<close>.
\<close>

definition softmax_row :: "real list \<Rightarrow> real list" where
  "softmax_row xs = map (\<lambda>x. exp x / sum_list (map exp xs)) xs"

definition softmax :: "real list list \<Rightarrow> real list list" where
  "softmax m = map softmax_row m"

text \<open>
  The forward computation of \<^verbatim>\<open>__init__\<close> (lines 80-87) on a batch of contexts. An id
  outside the vocabulary is an IndexError of \<^verbatim>\<open>self.R[context]\<close>; a context that does not
  hold \<open>context_sz\<close> ids does not fit the axes of \<^verbatim>\<open>tensordot\<close>.
\<close>

definition p_w_given_h ::
  "lbl_params \<Rightarrow> nat \<Rightarrow> nat \<Rightarrow> nat \<Rightarrow> nat list list \<Rightarrow> error + real list list" where
  "p_w_given_h P V K context_sz context_batch =
     (if \<not> list_all (list_all (\<lambda>w. w < V)) context_batch then Inl IndexError
      else if \<not> list_all (\<lambda>ctx. length ctx = context_sz) context_batch then Inl ShapeError
      else Inr (softmax (s_wh P V K context_sz context_batch)))"

text \<open>
  \<^verbatim>\<open>self.y_pred = T.argmax(self.p_w_given_h, axis=1)\<close>: for every row, the position of its
  first maximum; a vector (one dimension). A row without an element has no maximum.
\<close>

definition argmax :: "real list \<Rightarrow> nat option" where
  "argmax xs = List.find (\<lambda>i. list_all (\<lambda>x. x \<le> xs ! i) xs) [0..<length xs]"

fun y_pred :: "real list list \<Rightarrow> error + nat list" where
  "y_pred [] = Inr []"
| "y_pred (row # rows) =
     (case argmax row of
        None \<Rightarrow> Inl ValueError
      | Some i \<Rightarrow> (case y_pred rows of Inl e \<Rightarrow> Inl e | Inr js \<Rightarrow> Inr (i # js)))"

text \<open>
  \<^verbatim>\<open>negative_log_likelihood\<close> (lines 96-98), on the value \<open>p\<close> of \<^verbatim>\<open>self.p_w_given_h\<close>:
  \<^verbatim>\<open>T.transpose(p)[T.arange(y.shape[0]), y]\<close> holds \<open>p[y[n]][n]\<close> for every position \<open>n\<close> of
  \<open>y\<close>, and an index outside the matrix is an IndexError.
\<close>

definition p_true :: "real list list \<Rightarrow> nat list \<Rightarrow> real list" where
  "p_true p y = map (\<lambda>n. p ! (y ! n) ! n) [0..<length y]"

definition negative_log_likelihood :: "real list list \<Rightarrow> nat list \<Rightarrow> error + npfloat" where
  "negative_log_likelihood p y =
     (if \<not> list_all (\<lambda>n. y ! n < length p \<and> n < length (p ! (y ! n))) [0..<length y]
      then Inl IndexError
      else Inr (fneg (np_mean (map (\<lambda>q. Num (log 2 q)) (p_true p y)))))"

text \<open>
  \<^verbatim>\<open>errors\<close> (lines 101-112). The labels \<open>y\<close> are a tensor variable: its number of
  dimensions, the name of its dtype and, for a vector of integers, its elements. The
  first argument is the value of \<^verbatim>\<open>self.y_pred\<close>, a vector. The \<^verbatim>\<open>raise TypeError\<close> of
  line 104 builds its arguments first, and \<^verbatim>\<open>target\<close> is not a name of the module.
  \<^verbatim>\<open>T.neq\<close> compares element by element and needs both vectors of one length.
\<close>

record tensor_variable =
  ndim :: nat
  dtype :: string
  elements :: "int list"

definition y_pred_ndim :: nat where
  "y_pred_ndim = 1"

definition startswith :: "string \<Rightarrow> string \<Rightarrow> bool" where
  "startswith str pre = (take (length pre) str = pre)"

definition neq :: "int list \<Rightarrow> int list \<Rightarrow> real list" where
  "neq us vs = map (\<lambda>(u, v). if u \<noteq> v then 1 else 0) (zip us vs)"

definition errors :: "nat list \<Rightarrow> tensor_variable \<Rightarrow> error + npfloat" where
  "errors pred y =
     (if ndim y \<noteq> y_pred_ndim then Inl (NameError ''target'')
      else if startswith (dtype y) ''int'' then
        (if length (elements y) \<noteq> length pred then Inl ShapeError
         else Inr (np_mean (map Num (neq (map int pred) (elements y)))))
      else Inl NotImplementedError)"

text \<open>
  The integer dtypes of NumPy, signed and unsigned.
\<close>

definition integer_dtype :: "string \<Rightarrow> bool" where
  "integer_dtype d = (d \<in> set [''int8'', ''int16'', ''int32'', ''int64'',
                                ''uint8'', ''uint16'', ''uint32'', ''uint64''])"

subsection \<open>The compiled functions\<close>

text \<open>
  \<^verbatim>\<open>cost = lbl.negative_log_likelihood(y)\<close> for the batch \<open>(x, y)\<close>, and the functions that
  \<^verbatim>\<open>theano.function\<close> compiles from it with
  \<^verbatim>\<open>givens = {x: set_x[index*batch_size:(index+1)*batch_size], y: set_y[...]}\<close>.
\<close>

definition cost ::
  "lbl_params \<Rightarrow> nat \<Rightarrow> nat \<Rightarrow> nat \<Rightarrow> nat list list \<Rightarrow> nat list \<Rightarrow> error + npfloat" where
  "cost P V K context_sz x y =
     (case p_w_given_h P V K context_sz x of
        Inl e \<Rightarrow> Inl e
      | Inr p \<Rightarrow> negative_log_likelihood p y)"

definition batch_x :: "nat list list \<times> nat list \<Rightarrow> int \<Rightarrow> nat \<Rightarrow> nat list list" where
  "batch_x set_xy batch_size index =
     py_slice (fst set_xy) (int index * batch_size) ((int index + 1) * batch_size)"

definition batch_y :: "nat list list \<times> nat list \<Rightarrow> int \<Rightarrow> nat \<Rightarrow> nat list" where
  "batch_y set_xy batch_size index =
     py_slice (snd set_xy) (int index * batch_size) ((int index + 1) * batch_size)"

definition logprob ::
  "nat \<Rightarrow> nat \<Rightarrow> nat \<Rightarrow> nat list list \<times> nat list \<Rightarrow> int \<Rightarrow> lbl_params \<Rightarrow> nat \<Rightarrow> error + npfloat"
where
  "logprob V K context_sz set_xy batch_size P index =
     cost P V K context_sz (batch_x set_xy batch_size index) (batch_y set_xy batch_size index)"

text \<open>
  \<^verbatim>\<open>train_model\<close> returns the cost of the batch and applies the updates
  \<^verbatim>\<open>param - learning_rate * gparam\<close>. The gradients are Theano's (\<^verbatim>\<open>T.grad\<close>), so the
  update is a parameter \<open>sgd\<close> of the model: from the learning rate, the parameters and
  the batch to the new parameters. \<^verbatim>\<open>learning_rate\<close> is a Python float when the updates are
  built (line 183): the compiled function keeps the initial rate.
\<close>

definition train_step ::
  "(npfloat \<Rightarrow> lbl_params \<Rightarrow> nat list list \<Rightarrow> nat list \<Rightarrow> lbl_params) \<Rightarrow> npfloat \<Rightarrow>
   nat \<Rightarrow> nat \<Rightarrow> nat \<Rightarrow> nat list list \<times> nat list \<Rightarrow> int \<Rightarrow> lbl_params \<Rightarrow> nat \<Rightarrow> error + lbl_params"
where
  "train_step sgd rate V K context_sz set_xy batch_size P index =
     (case logprob V K context_sz set_xy batch_size P index of
        Inl e \<Rightarrow> Inl e
      | Inr c \<Rightarrow> Inr (sgd rate P (batch_x set_xy batch_size index)
                                 (batch_y set_xy batch_size index)))"

text \<open>
  The number of minibatches (lines 158-160): \<open>/\<close> on two Python 2 integers is the floor
  division, and fails for a divisor 0.
\<close>

definition n_batches :: "nat \<Rightarrow> int \<Rightarrow> error + int" where
  "n_batches n batch_size = (if batch_size = 0 then Inl ZeroDivisionError else Inr (int n div batch_size))"

text \<open>
  The positions of a data set of \<open>n\<close> instances that the batches \<open>0, ..., nb - 1\<close> read.
\<close>

definition batch_positions :: "nat \<Rightarrow> int \<Rightarrow> nat \<Rightarrow> nat list" where
  "batch_positions n batch_size index =
     slice_positions n (int index * batch_size) ((int index + 1) * batch_size)"

definition used_positions :: "nat \<Rightarrow> int \<Rightarrow> int \<Rightarrow> nat list" where
  "used_positions n batch_size nb = concat (map (batch_positions n batch_size) (xrange nb))"

subsection \<open>The trainer\<close>

text \<open>
  What the training loop reads and never changes: the three compiled functions, as
  functions of the current parameters and the batch index, and the configuration.
\<close>

record 'p trainer =
  train_model :: "'p \<Rightarrow> nat \<Rightarrow> error + 'p"
  logprob_dev :: "'p \<Rightarrow> nat \<Rightarrow> error + npfloat"
  logprob_test :: "'p \<Rightarrow> nat \<Rightarrow> error + npfloat"
  n_train_batches :: int
  n_dev_batches :: int
  n_test_batches :: int
  rate_update :: string
  epochs :: int
  patience_incr :: int
  improvement_thrs :: npfloat
  validation_freq :: int

text \<open>
  What the loop changes: the shared parameters of the model and the local variables of
  \<^verbatim>\<open>train_lbl\<close> (\<^verbatim>\<open>best_params\<close> and \<^verbatim>\<open>test_core\<close> are never assigned again).
\<close>

record 'p train_state =
  params :: 'p
  learning_rate :: npfloat
  patience :: "int option"
  best_dev_ppl :: npfloat
  last_epoch_dev_ppl :: npfloat
  test_ppl :: npfloat
  done_looping :: bool

text \<open>The list comprehension \<^verbatim>\<open>[f(i) for i in xrange(n)]\<close>, which stops at the first exception.\<close>

fun eval_batches :: "(nat \<Rightarrow> error + npfloat) \<Rightarrow> nat list \<Rightarrow> error + npfloat list" where
  "eval_batches f [] = Inr []"
| "eval_batches f (i # is) =
     (case f i of
        Inl e \<Rightarrow> Inl e
      | Inr v \<Rightarrow> (case eval_batches f is of Inl e \<Rightarrow> Inl e | Inr vs \<Rightarrow> Inr (v # vs)))"

definition compute_dev_logp :: "'p trainer \<Rightarrow> 'p \<Rightarrow> error + npfloat" where
  "compute_dev_logp env P =
     (case eval_batches (logprob_dev env P) (xrange (n_dev_batches env)) of
        Inl e \<Rightarrow> Inl e
      | Inr vs \<Rightarrow> Inr (np_mean vs))"

definition compute_dev_ppl :: "'p trainer \<Rightarrow> 'p \<Rightarrow> error + npfloat" where
  "compute_dev_ppl env P =
     (case compute_dev_logp env P of Inl e \<Rightarrow> Inl e | Inr v \<Rightarrow> Inr (np_power2 v))"

definition compute_test_logp :: "'p trainer \<Rightarrow> 'p \<Rightarrow> error + npfloat" where
  "compute_test_logp env P =
     (case eval_batches (logprob_test env P) (xrange (n_test_batches env)) of
        Inl e \<Rightarrow> Inl e
      | Inr vs \<Rightarrow> Inr (np_mean vs))"

definition compute_test_ppl :: "'p trainer \<Rightarrow> 'p \<Rightarrow> error + npfloat" where
  "compute_test_ppl env P =
     (case compute_test_logp env P of Inl e \<Rightarrow> Inl e | Inr v \<Rightarrow> Inr (np_power2 v))"

text \<open>
  Lines 251-253. \<^verbatim>\<open>validate_model\<close> is defined in a comment only (lines 192-195),
  \<^verbatim>\<open>n_valid_batches\<close> is defined nowhere, and NumPy is imported under the name \<^verbatim>\<open>np\<close>. The
  list comprehension of line 251 evaluates \<^verbatim>\<open>xrange(n_valid_batches)\<close> first; line 252 reads
  \<^verbatim>\<open>numpy\<close>; the format string of line 253 has four conversions for three arguments.
\<close>

definition validation_losses :: "error + npfloat list" where
  "validation_losses = Inl (NameError ''n_valid_batches'')"

definition this_validation_loss :: "npfloat list \<Rightarrow> error + npfloat" where
  "this_validation_loss losses = Inl (NameError ''numpy'')"

definition validation_block :: "error + unit" where
  "validation_block =
     (case validation_losses of
        Inl e \<Rightarrow> Inl e
      | Inr losses \<Rightarrow>
          (case this_validation_loss losses of Inl e \<Rightarrow> Inl e | Inr l \<Rightarrow> Inl TypeError))"

text \<open>Lines 257-268: a checkpoint with the lowest dev perplexity so far.\<close>

definition improve :: "'p trainer \<Rightarrow> int \<Rightarrow> npfloat \<Rightarrow> 'p train_state \<Rightarrow> error + 'p train_state" where
  "improve env itr dev_ppl st =
     (if flt dev_ppl (best_dev_ppl st) then
        (let st1 = (case patience st of
                      None \<Rightarrow> st
                    | Some pat \<Rightarrow>
                        if pat \<noteq> 0 \<and> flt dev_ppl (fmul (best_dev_ppl st) (improvement_thrs env))
                        then st\<lparr>patience := Some (max pat (itr * patience_incr env))\<rparr>
                        else st);
             st2 = st1\<lparr>best_dev_ppl := dev_ppl\<rparr>
         in case compute_test_logp env (params st2) of
              Inl e \<Rightarrow> Inl e
            | Inr test_logp \<Rightarrow>
                (case compute_test_ppl env (params st2) of
                   Inl e \<Rightarrow> Inl e
                 | Inr t \<Rightarrow> Inr (st2\<lparr>test_ppl := t\<rparr>)))
      else Inr st)"

text \<open>Lines 242-268: the body of \<^verbatim>\<open>if itr % validation_freq == 0\<close>.\<close>

definition checkpoint :: "'p trainer \<Rightarrow> int \<Rightarrow> 'p train_state \<Rightarrow> error + 'p train_state" where
  "checkpoint env itr st =
     (case compute_dev_logp env (params st) of
        Inl e \<Rightarrow> Inl e
      | Inr dev_logp \<Rightarrow>
          (case compute_dev_ppl env (params st) of
             Inl e \<Rightarrow> Inl e
           | Inr dev_ppl \<Rightarrow>
               (case validation_block of
                  Inl e \<Rightarrow> Inl e
                | Inr u \<Rightarrow> improve env itr dev_ppl st)))"

text \<open>Lines 270-272: \<^verbatim>\<open>if patience and patience <= itr\<close>; \<open>None\<close> and 0 are false.\<close>

definition patience_check :: "int \<Rightarrow> 'p train_state \<Rightarrow> 'p train_state" where
  "patience_check itr st =
     (case patience st of
        None \<Rightarrow> st
      | Some pat \<Rightarrow> if pat \<noteq> 0 \<and> pat \<le> itr then st\<lparr>done_looping := True\<rparr> else st)"

text \<open>Lines 239-272: one minibatch. \<^verbatim>\<open>itr % validation_freq\<close> fails for a frequency 0.\<close>

definition minibatch_step ::
  "'p trainer \<Rightarrow> nat \<Rightarrow> nat \<Rightarrow> 'p train_state \<Rightarrow> error + 'p train_state" where
  "minibatch_step env epoch minibatch_index st =
     (case train_model env (params st) minibatch_index of
        Inl e \<Rightarrow> Inl e
      | Inr P \<Rightarrow>
          (let st1 = st\<lparr>params := P\<rparr>;
               itr = int epoch * n_train_batches env + int minibatch_index
           in if validation_freq env = 0 then Inl ZeroDivisionError
              else (case (if itr mod validation_freq env = 0 then checkpoint env itr st1
                          else Inr st1) of
                      Inl e \<Rightarrow> Inl e
                    | Inr st2 \<Rightarrow> Inr (patience_check itr st2))))"

text \<open>
  The loop over the minibatches of one epoch. The \<^verbatim>\<open>break\<close> of line 272 comes with
  \<^verbatim>\<open>done_looping = True\<close>, which is false when an epoch begins.
\<close>

fun minibatch_loop ::
  "'p trainer \<Rightarrow> nat \<Rightarrow> nat list \<Rightarrow> 'p train_state \<Rightarrow> error + 'p train_state" where
  "minibatch_loop env epoch [] st = Inr st"
| "minibatch_loop env epoch (i # is) st =
     (case minibatch_step env epoch i st of
        Inl e \<Rightarrow> Inl e
      | Inr st' \<Rightarrow> if done_looping st' then Inr st' else minibatch_loop env epoch is st')"

text \<open>Lines 273-287: the learning rate at the end of an epoch.\<close>

definition epoch_end :: "'p trainer \<Rightarrow> nat \<Rightarrow> 'p train_state \<Rightarrow> error + 'p train_state" where
  "epoch_end env epoch st =
     (if rate_update env = ''simple'' then
        Inr (st\<lparr>learning_rate := Num (1 / real (epoch + 1))\<rparr>)
      else if rate_update env = ''adaptive'' then
        (case compute_dev_ppl env (params st) of
           Inl e \<Rightarrow> Inl e
         | Inr this_epoch_dev_ppl \<Rightarrow>
             Inr ((if fgt this_epoch_dev_ppl (last_epoch_dev_ppl st)
                   then st\<lparr>learning_rate := fhalf (learning_rate st)\<rparr> else st)
                  \<lparr>last_epoch_dev_ppl := this_epoch_dev_ppl\<rparr>))
      else if rate_update env = ''constant'' then Inr st
      else Inl ValueError)"

text \<open>Lines 234-287: the loop over the epochs.\<close>

fun epoch_loop :: "'p trainer \<Rightarrow> nat list \<Rightarrow> 'p train_state \<Rightarrow> error + 'p train_state" where
  "epoch_loop env [] st = Inr st"
| "epoch_loop env (epoch # rest) st =
     (if done_looping st then Inr st
      else (case minibatch_loop env epoch (xrange (n_train_batches env)) st of
              Inl e \<Rightarrow> Inl e
            | Inr st1 \<Rightarrow>
                (case epoch_end env epoch st1 of
                   Inl e \<Rightarrow> Inl e
                 | Inr st2 \<Rightarrow> epoch_loop env rest st2)))"

text \<open>
  Lines 226-295. After the loop, line 293 reads \<^verbatim>\<open>epoch\<close>, which no iteration has bound
  when \<^verbatim>\<open>epochs\<close> is not positive. The elapsed time of lines 290-295 is not modelled.
\<close>

definition initial_state :: "'p \<Rightarrow> npfloat \<Rightarrow> int option \<Rightarrow> 'p train_state" where
  "initial_state P rate pat =
     \<lparr>params = P, learning_rate = rate, patience = pat, best_dev_ppl = PosInf,
      last_epoch_dev_ppl = PosInf, test_ppl = PosInf, done_looping = False\<rparr>"

definition train_loop :: "'p trainer \<Rightarrow> 'p train_state \<Rightarrow> error + 'p train_state" where
  "train_loop env st =
     (case epoch_loop env (xrange (epochs env)) st of
        Inl e \<Rightarrow> Inl e
      | Inr st' \<Rightarrow> if epochs env \<le> 0 then Inl (UnboundLocalError ''epoch'') else Inr st')"

text \<open>
  \<^verbatim>\<open>train_lbl\<close>, lines 143-209: the instances of the three corpora, the numbers of
  minibatches and the compiled functions. The vocabulary (lines 144-147) and the initial
  parameters of the model are arguments, with the update \<open>sgd\<close> of \<^verbatim>\<open>train_model\<close>.
\<close>

definition lbl_trainer ::
  "(npfloat \<Rightarrow> lbl_params \<Rightarrow> nat list list \<Rightarrow> nat list \<Rightarrow> lbl_params) \<Rightarrow> dictionary \<Rightarrow>
   string list list \<Rightarrow> string list list \<Rightarrow> string list list \<Rightarrow>
   nat \<Rightarrow> nat \<Rightarrow> npfloat \<Rightarrow> string \<Rightarrow> int \<Rightarrow> int \<Rightarrow> int \<Rightarrow> npfloat \<Rightarrow> int \<Rightarrow>
   error + lbl_params trainer"
where
  "lbl_trainer sgd vocab train_data dev_data test_data
               K context_sz rate0 rate_upd n_epochs batch_size pat_incr thrs valid_freq =
     (let V = vocab_size vocab;
          train_set = make_instances train_data vocab context_sz;
          dev_set = make_instances dev_data vocab context_sz;
          test_set = make_instances test_data vocab context_sz
      in case n_batches (length (fst train_set)) batch_size of
           Inl e \<Rightarrow> Inl e
         | Inr ntrain \<Rightarrow>
       (case n_batches (length (fst dev_set)) batch_size of
           Inl e \<Rightarrow> Inl e
         | Inr ndev \<Rightarrow>
       (case n_batches (length (fst test_set)) batch_size of
           Inl e \<Rightarrow> Inl e
         | Inr ntest \<Rightarrow>
             Inr \<lparr>train_model = train_step sgd rate0 V K context_sz train_set batch_size,
                  logprob_dev = logprob V K context_sz dev_set batch_size,
                  logprob_test = logprob V K context_sz test_set batch_size,
                  n_train_batches = ntrain, n_dev_batches = ndev, n_test_batches = ntest,
                  rate_update = rate_upd, epochs = n_epochs, patience_incr = pat_incr,
                  improvement_thrs = thrs, validation_freq = valid_freq\<rparr>)))"

definition train_lbl ::
  "(npfloat \<Rightarrow> lbl_params \<Rightarrow> nat list list \<Rightarrow> nat list \<Rightarrow> lbl_params) \<Rightarrow> lbl_params \<Rightarrow> dictionary \<Rightarrow>
   string list list \<Rightarrow> string list list \<Rightarrow> string list list \<Rightarrow>
   nat \<Rightarrow> nat \<Rightarrow> npfloat \<Rightarrow> string \<Rightarrow> int \<Rightarrow> int \<Rightarrow> int option \<Rightarrow> int \<Rightarrow> npfloat \<Rightarrow> int \<Rightarrow>
   error + lbl_params train_state"
where
  "train_lbl sgd P0 vocab train_data dev_data test_data
             K context_sz rate0 rate_upd n_epochs batch_size pat pat_incr thrs valid_freq =
     (case lbl_trainer sgd vocab train_data dev_data test_data
             K context_sz rate0 rate_upd n_epochs batch_size pat_incr thrs valid_freq of
        Inl e \<Rightarrow> Inl e
      | Inr env \<Rightarrow> train_loop env (initial_state P0 rate0 pat))"

text \<open>
  The sum, over the vocabulary, of the entries of \<^verbatim>\<open>p_w_given_h\<close> for the context \<open>n\<close> of
  the batch: the entries that \<^verbatim>\<open>negative_log_likelihood\<close> reads for that context.
\<close>

definition column_sum :: "real list list \<Rightarrow> nat \<Rightarrow> real" where
  "column_sum p n = (\<Sum>row\<leftarrow>p. row ! n)"

subsection \<open>Example inputs\<close>

text \<open>A vocabulary of one word, with the two sentence markers and the unknown word.\<close>

definition example_vocab :: dictionary where
  "example_vocab =
     \<lparr>token_ids = [''<s>'' \<mapsto> 0, ''</s>'' \<mapsto> 1, ''a'' \<mapsto> 2], unk_id = 3, vocab_size = 4\<rparr>"

text \<open>
  Parameters for that vocabulary, with \<open>K = 1\<close> and \<open>context_sz = 1\<close>, and an update that
  adds 1 to every bias, so that the parameters count the updates.
\<close>

definition example_params :: lbl_params where
  "example_params =
     \<lparr>param_R = [[1], [2], [3], [4]], param_Q = [[1], [0], [2], [1]],
      param_C = [[[1]]], param_b = [0, 0, 0, 0]\<rparr>"

definition example_sgd :: "npfloat \<Rightarrow> lbl_params \<Rightarrow> nat list list \<Rightarrow> nat list \<Rightarrow> lbl_params" where
  "example_sgd rate P x y = P\<lparr>param_b := map (\<lambda>v. v + 1) (param_b P)\<rparr>"

text \<open>
  The trainer of \<^verbatim>\<open>train_lbl\<close> for the one-sentence corpus \<^verbatim>\<open>[['a']]\<close> as train, dev and
  test data (two instances each), by batch size, strategy name and validation frequency.
\<close>

definition example_set :: "nat list list \<times> nat list" where
  "example_set = ([[0], [2]], [2, 1])"

definition example_trainer :: "int \<Rightarrow> string \<Rightarrow> int \<Rightarrow> lbl_params trainer" where
  "example_trainer batch_size rate_upd valid_freq =
     \<lparr>train_model = train_step example_sgd (Num 1) 4 1 1 example_set batch_size,
      logprob_dev = logprob 4 1 1 example_set batch_size,
      logprob_test = logprob 4 1 1 example_set batch_size,
      n_train_batches = 2 div batch_size, n_dev_batches = 2 div batch_size,
      n_test_batches = 2 div batch_size,
      rate_update = rate_upd, epochs = 10, patience_incr = 2,
      improvement_thrs = Num (995 / 1000), validation_freq = valid_freq\<rparr>"

section \<open>Properties\<close>

subsection \<open>Instance generation\<close>

lemma zip_star_stop: "xss = [] \<or> [] \<in> set xss \<Longrightarrow> zip_star xss = []"
  by (subst zip_star.simps) simp

lemma zip_star_step:
  "xss \<noteq> [] \<Longrightarrow> [] \<notin> set xss \<Longrightarrow> zip_star xss = map hd xss # zip_star (map tl xss)"
  by (subst zip_star.simps) simp

lemma zip_star_drops:
  "zip_star (map (\<lambda>i. drop i xs) [0..<Suc c]) =
     map (\<lambda>j. take (Suc c) (drop j xs)) [0..<length xs - c]"
proof (induction xs)
  case Nil
  have "[] \<in> set (map (\<lambda>i. drop i ([]::'a list)) [0..<Suc c])" by auto
  then show ?case by (simp add: zip_star_stop del: upt_Suc)
next
  case (Cons x xs)
  let ?L = "map (\<lambda>i. drop i (x # xs)) [0..<Suc c]"
  show ?case
  proof (cases "length xs < c")
    case True
    then have "drop c (x # xs) = []" by simp
    moreover have "drop c (x # xs) \<in> set ?L" by (simp del: drop_Suc_Cons)
    ultimately have "[] \<in> set ?L" by simp
    then have "zip_star ?L = []" by (simp add: zip_star_stop del: upt_Suc)
    with True show ?thesis by simp
  next
    case False
    then have le: "c \<le> length xs" by simp
    have nonempty: "[] \<notin> set ?L"
      using le by auto
    have hds: "map hd ?L = take (Suc c) (x # xs)"
    proof (rule nth_equalityI)
      show "length (map hd ?L) = length (take (Suc c) (x # xs))"
        using le by simp
    next
      fix i assume "i < length (map hd ?L)"
      then have i: "i < Suc c" by simp
      with le have "i < length (x # xs)" by simp
      then have "hd (drop i (x # xs)) = (x # xs) ! i" by (rule hd_drop_conv_nth)
      with i show "map hd ?L ! i = take (Suc c) (x # xs) ! i"
        by (simp del: upt_Suc take_Suc_Cons)
    qed
    have tls: "map tl ?L = map (\<lambda>i. drop i xs) [0..<Suc c]"
      by (simp add: tl_drop del: upt_Suc)
    have "zip_star ?L = map hd ?L # zip_star (map tl ?L)"
      by (rule zip_star_step) (use nonempty in simp_all)
    also have "\<dots> = take (Suc c) (x # xs) # map (\<lambda>j. take (Suc c) (drop j xs)) [0..<length xs - c]"
      by (simp only: hds tls Cons.IH)
    also have "\<dots> = map (\<lambda>j. take (Suc c) (drop j (x # xs))) [0..<length (x # xs) - c]"
    proof -
      have "[0..<length (x # xs) - c] = 0 # map Suc [0..<length xs - c]"
        using le by (simp add: Suc_diff_le upt_conv_Cons map_Suc_upt del: upt_Suc)
      then show ?thesis by (simp add: comp_def del: upt_Suc)
    qed
    finally show ?thesis .
  qed
qed

lemma windows_eq:
  "windows c ids = map (\<lambda>j. take (Suc c) (drop j ids)) [0..<length ids - c]"
proof -
  have "xrange (int c + 1) = [0..<Suc c]" by (simp add: xrange_def nat_add_distrib)
  then show ?thesis by (simp only: windows_def zip_star_drops)
qed



lemma length_sentence_ids:
  "length (sentence_ids vocab c sentence) = length sentence + 2 * c"
  by (simp add: sentence_ids_def doc_words_to_ids_def pad_sentence_def)




subsection \<open>The model\<close>

lemma member_le_sum_list_real:
  fixes ys :: "real list"
  shows "\<forall>y\<in>set ys. 0 \<le> y \<Longrightarrow> x \<in> set ys \<Longrightarrow> x \<le> sum_list ys"
proof (induction ys)
  case Nil
  then show ?case by simp
next
  case (Cons y ys)
  then have "0 \<le> sum_list ys" by (simp add: sum_list_nonneg)
  with Cons show ?case by auto
qed

lemma sum_exp_pos: "xs \<noteq> [] \<Longrightarrow> 0 < sum_list (map exp (xs::real list))"
proof -
  assume "xs \<noteq> []"
  then obtain x where x: "x \<in> set xs" by (cases xs) auto
  have "exp x \<le> sum_list (map exp xs)"
    by (rule member_le_sum_list_real) (use x in auto)
  moreover have "0 < exp x" by simp
  ultimately show ?thesis by linarith
qed

lemma softmax_row_bounds:
  assumes "q \<in> set (softmax_row xs)"
  shows "0 < q \<and> q \<le> 1"
proof -
  from assms obtain x where x: "x \<in> set xs" and q: "q = exp x / sum_list (map exp xs)"
    by (auto simp: softmax_row_def)
  then have "xs \<noteq> []" by auto
  then have pos: "0 < sum_list (map exp xs)" by (rule sum_exp_pos)
  have le: "exp x \<le> sum_list (map exp xs)"
    by (rule member_le_sum_list_real) (use x in auto)
  from pos le show ?thesis unfolding q by simp
qed

lemma sum_list_divide_const:
  fixes f :: "'a \<Rightarrow> real"
  shows "(\<Sum>x\<leftarrow>xs. f x / c) = (\<Sum>x\<leftarrow>xs. f x) / c"
  by (induction xs) (simp_all add: add_divide_distrib)

lemma softmax_row_sum: "xs \<noteq> [] \<Longrightarrow> sum_list (softmax_row xs) = 1"
proof -
  assume "xs \<noteq> []"
  then have "0 < sum_list (map exp xs)" by (rule sum_exp_pos)
  then show ?thesis
    by (simp add: softmax_row_def sum_list_divide_const)
qed

lemma softmax_row_single: "softmax_row [x] = [1]"
  by (simp add: softmax_row_def)

lemma length_softmax_row [simp]: "length (softmax_row xs) = length xs"
  by (simp add: softmax_row_def)

lemma foldl_fadd_Num: "foldl fadd (Num a) (map Num xs) = Num (a + sum_list xs)"
  by (induction xs arbitrary: a) (simp_all add: add.assoc)

lemma np_mean_Num:
  "xs \<noteq> [] \<Longrightarrow> np_mean (map Num xs) = Num (sum_list xs / real (length xs))"
  by (simp add: np_mean_def foldl_fadd_Num)


lemma p_w_given_h_shape:
  assumes "p_w_given_h P V K cs x = Inr p"
  shows "length p = V" and "v < V \<Longrightarrow> length (p ! v) = length x"
    and "v < V \<Longrightarrow> n < length x \<Longrightarrow> 0 < p ! v ! n \<and> p ! v ! n \<le> 1"
    and "v < V \<Longrightarrow> x \<noteq> [] \<Longrightarrow> sum_list (p ! v) = 1"
proof -
  from assms have p: "p = softmax (s_wh P V K cs x)"
    by (simp add: p_w_given_h_def split: if_splits)
  show "length p = V" by (simp add: p softmax_def s_wh_def)
  show len: "length (p ! v) = length x" if "v < V"
    using that by (simp add: p softmax_def s_wh_def)
  show "0 < p ! v ! n \<and> p ! v ! n \<le> 1" if "v < V" "n < length x"
  proof -
    have "p ! v = softmax_row (s_wh P V K cs x ! v)"
      using that by (simp add: p softmax_def s_wh_def)
    moreover have "p ! v ! n \<in> set (p ! v)"
      using that len by simp
    ultimately show ?thesis using softmax_row_bounds by metis
  qed
  show "sum_list (p ! v) = 1" if "v < V" "x \<noteq> []"
  proof -
    have "p ! v = softmax_row (s_wh P V K cs x ! v)"
      using that by (simp add: p softmax_def s_wh_def)
    moreover have "s_wh P V K cs x ! v \<noteq> []"
      using that by (simp add: s_wh_def)
    ultimately show ?thesis by (simp add: softmax_row_sum)
  qed
qed


lemma sum_list_nonpos_real:
  fixes ys :: "real list"
  shows "\<forall>y\<in>set ys. y \<le> 0 \<Longrightarrow> sum_list ys \<le> 0"
  by (induction ys) auto

lemma softmax_single_context:
  "softmax (s_wh P V K cs [ctx]) = replicate V [1]"
  by (simp add: softmax_def s_wh_def softmax_row_def comp_def map_replicate_const)

lemma p_w_given_h_single_context:
  "list_all (\<lambda>w. w < V) ctx \<Longrightarrow> length ctx = cs \<Longrightarrow>
     p_w_given_h P V K cs [ctx] = Inr (replicate V [1])"
  by (simp add: p_w_given_h_def softmax_single_context)

lemma column_sum_replicate: "column_sum (replicate V [1]) 0 = real V"
  by (simp add: column_sum_def sum_list_replicate)


text \<open>
  C2. The claim: for every batch of contexts, the output of the forward computation is,
  for each context of the batch, a probability distribution over the \<open>V\<close> words: its
  entries are not negative and sum to 1 over the vocabulary. In the code the scores have
  the shape \<open>(V, B)\<close> and the softmax normalises each row, that is the scores of one word
  over the contexts of the batch (\<open>p_w_given_h_shape\<close>). For a batch of one context every
  entry is 1, and the entries of that context sum to \<open>V\<close>: here \<open>V = 4\<close>, and the context
  holds the word 2.
\<close>

theorem p_w_given_h_single_context_sums_to_V:
  "p_w_given_h example_params 4 1 1 [[2]] = Inr [[1], [1], [1], [1]]
   \<and> column_sum [[1], [1], [1], [1]] 0 = 4"
proof -
  have "p_w_given_h example_params 4 1 1 [[2]] = Inr (replicate 4 [1])"
    by (rule p_w_given_h_single_context) simp_all
  moreover have "replicate 4 [1::real] = [[1], [1], [1], [1]]"
    by (simp add: eval_nat_numeral)
  moreover have "column_sum [[1], [1], [1], [1]] 0 = 4"
    by (simp add: column_sum_def)
  ultimately show ?thesis by simp
qed




subsection \<open>Batches\<close>

lemma slice_bound_inside: "0 \<le> k \<Longrightarrow> k \<le> int n \<Longrightarrow> slice_bound n k = nat k"
  by (simp add: slice_bound_def)

lemma batch_positions_full:
  assumes "0 < bs" "(int i + 1) * bs \<le> int n"
  shows "batch_positions n bs i = [i * nat bs..<(i + 1) * nat bs]"
proof -
  have a: "0 \<le> int i * bs" using assms(1) by simp
  have "int i * bs \<le> (int i + 1) * bs" using assms(1) by (simp add: distrib_right)
  with assms(2) have b: "int i * bs \<le> int n" by linarith
  have c: "0 \<le> (int i + 1) * bs" using assms(1) by simp
  have "nat (int i * bs) = i * nat bs" using assms(1) by (simp add: nat_mult_distrib)
  moreover have "nat ((int i + 1) * bs) = (i + 1) * nat bs"
    using assms(1) by (simp add: nat_mult_distrib nat_add_distrib)
  ultimately show ?thesis
    using a b c assms(2) by (simp add: batch_positions_def slice_positions_def slice_bound_inside)
qed

lemma concat_blocks: "concat (map (\<lambda>i. [i * b..<(i + 1) * b]) [0..<m]) = [0..<m * b]"
proof (induction m)
  case 0
  then show ?case by simp
next
  case (Suc m)
  have "[0..<m * b] @ [m * b..<(m + 1) * b] = [0..<(m + 1) * b]"
    by (metis add.commute le_add2 mult_Suc upt_add_eq_append zero_le Suc_eq_plus1)
  with Suc show ?case by simp
qed

lemma used_positions_full:
  assumes bs: "0 < bs"
  shows "used_positions n bs (int n div bs) = [0..<nat (int n div bs) * nat bs]"
proof -
  let ?m = "nat (int n div bs)"
  have fit: "(int i + 1) * bs \<le> int n" if "i < ?m" for i
  proof -
    from that have "int i + 1 \<le> int n div bs" by simp
    then have "(int i + 1) * bs \<le> (int n div bs) * bs" using bs by simp
    also have "\<dots> \<le> int n" using bs
      by (metis add.commute add_increasing2 div_mult_mod_eq less_imp_le mult.commute order_refl pos_mod_sign)
    finally show ?thesis .
  qed
  have eq: "map (batch_positions n bs) [0..<?m] = map (\<lambda>i. [i * nat bs..<(i + 1) * nat bs]) [0..<?m]"
    by (rule map_cong) (use bs fit in \<open>simp_all add: batch_positions_full\<close>)
  have "used_positions n bs (int n div bs) = concat (map (batch_positions n bs) [0..<?m])"
    by (simp add: used_positions_def xrange_def)
  also have "\<dots> = concat (map (\<lambda>i. [i * nat bs..<(i + 1) * nat bs]) [0..<?m])"
    by (simp only: eq)
  also have "\<dots> = [0..<?m * nat bs]"
    by (rule concat_blocks)
  finally show ?thesis .
qed

lemma batch_x_positions:
  "batch_x set_xy bs i = map (\<lambda>j. fst set_xy ! j) (batch_positions (length (fst set_xy)) bs i)"
  by (simp add: batch_x_def py_slice_def batch_positions_def)

lemma batch_y_positions:
  "batch_y set_xy bs i = map (\<lambda>j. snd set_xy ! j) (batch_positions (length (snd set_xy)) bs i)"
  by (simp add: batch_y_def py_slice_def batch_positions_def)

text \<open>
  C10. A data set of \<open>n\<close> instances is read in \<open>n / batch_size\<close> batches (floor division),
  and the batch \<open>i\<close> reads the positions \<open>batch_positions n batch_size i\<close>
  (\<open>batch_x_positions\<close>, \<open>batch_y_positions\<close>). For a positive batch size the batches read
  exactly the first \<open>floor(n / batch_size) * batch_size\<close> positions, in order: none of the
  trailing \<open>n mod batch_size\<close> positions is in a batch. For a negative batch size there is
  no batch at all.
\<close>

theorem trailing_instances_unused:
  assumes "n_batches n batch_size = Inr nb"
  shows "if 0 < batch_size
         then used_positions n batch_size nb = [0..<nat (nb * batch_size)]
            \<and> nat (nb * batch_size) = n - n mod nat batch_size
            \<and> list_all (\<lambda>j. j \<notin> set (used_positions n batch_size nb)) [nat (nb * batch_size)..<n]
            \<and> length [nat (nb * batch_size)..<n] = n mod nat batch_size
         else used_positions n batch_size nb = []"
proof (cases "0 < batch_size")
  case True
  from assms have nb: "nb = int n div batch_size"
    by (simp add: n_batches_def split: if_splits)
  have nonneg: "0 \<le> int n div batch_size"
    using True by (simp add: pos_imp_zdiv_nonneg_iff)
  have prod: "nat (nb * batch_size) = nat (int n div batch_size) * nat batch_size"
    using True nonneg by (simp add: nb nat_mult_distrib)
  have used: "used_positions n batch_size nb = [0..<nat (nb * batch_size)]"
    unfolding prod unfolding nb by (rule used_positions_full [OF True])
  have "nat (int n div batch_size) = n div nat batch_size"
    using True by (simp add: nat_div_distrib)
  then have size: "nat (nb * batch_size) = n - n mod nat batch_size"
    unfolding prod by (simp add: minus_mod_eq_div_mult)
  have rest: "list_all (\<lambda>j. j \<notin> set (used_positions n batch_size nb)) [nat (nb * batch_size)..<n]"
    unfolding used by (simp add: list_all_iff)
  have "length [nat (nb * batch_size)..<n] = n mod nat batch_size"
    unfolding size by simp
  with True used size rest show ?thesis by simp
next
  case False
  from assms have nb: "nb = int n div batch_size" and "batch_size \<noteq> 0"
    by (simp_all add: n_batches_def split: if_splits)
  with False have "batch_size < 0" by simp
  then have "int n div batch_size \<le> 0"
    by (simp add: div_nonneg_neg_le0)
  then have "used_positions n batch_size nb = []"
    by (simp add: used_positions_def xrange_def nb)
  with False show ?thesis by simp
qed

theorem trailing_instances_unused_witness:
  "used_positions 7 3 2 = [0, 1, 2, 3, 4, 5] \<and> list_all (\<lambda>j. j \<notin> set (used_positions 7 3 2)) [6]"
proof -
  have "n_batches 7 3 = Inr 2" by (simp add: n_batches_def)
  from trailing_instances_unused [OF this] show ?thesis
    by (simp add: upt_rec)
qed

subsection \<open>The error rate\<close>

lemma neq_bounds: "v \<in> set (neq us vs) \<Longrightarrow> 0 \<le> v \<and> v \<le> 1"
  by (auto simp: neq_def)

lemma neq_same: "neq us us = replicate (length us) 0"
  by (induction us) (simp_all add: neq_def)

lemma length_neq: "length (neq us vs) = min (length us) (length vs)"
  by (simp add: neq_def)

lemma sum_list_bounds_real:
  fixes ys :: "real list"
  shows "\<forall>y\<in>set ys. 0 \<le> y \<and> y \<le> 1 \<Longrightarrow> 0 \<le> sum_list ys \<and> sum_list ys \<le> real (length ys)"
  by (induction ys) auto

lemma sum_list_indicator:
  "(\<Sum>z\<leftarrow>zs. if Q z then 1 else 0) = real (length (filter Q zs))"
  by (induction zs) simp_all

lemma sum_list_neq_count:
  "sum_list (neq us vs) = real (length (filter (\<lambda>(u, v). u \<noteq> v) (zip us vs)))"
proof -
  have "neq us vs = map (\<lambda>z. if (case z of (u, v) \<Rightarrow> u \<noteq> v) then 1 else 0) (zip us vs)"
    by (simp add: neq_def split_def)
  then show ?thesis by (simp only: sum_list_indicator)
qed

text \<open>
  C8, as amended. \<^verbatim>\<open>errors(y)\<close> fails exactly when the number of dimensions of \<open>y\<close> differs
  from that of \<^verbatim>\<open>y_pred\<close>, or the name of the dtype of \<open>y\<close> does not start with \<^verbatim>\<open>int\<close>, or
  \<open>y\<close> has not the length of \<^verbatim>\<open>y_pred\<close>. Otherwise, for labels that are not empty, it
  returns the number of positions where the prediction differs from the label, divided by
  the number of labels: a value in \<open>[0, 1]\<close>, and 0 when the predictions are the labels.
\<close>

theorem errors_cases:
  "((\<exists>e. errors pred y = Inl e) \<longleftrightarrow>
      (ndim y \<noteq> y_pred_ndim \<or> \<not> startswith (dtype y) ''int'' \<or> length (elements y) \<noteq> length pred))
   \<and> (ndim y = y_pred_ndim \<and> startswith (dtype y) ''int'' \<and> length (elements y) = length pred
        \<and> pred \<noteq> [] \<longrightarrow>
        errors pred y =
          Inr (Num (real (length (filter (\<lambda>(u, v). u \<noteq> v) (zip (map int pred) (elements y))))
                    / real (length pred)))
        \<and> 0 \<le> real (length (filter (\<lambda>(u, v). u \<noteq> v) (zip (map int pred) (elements y))))
                    / real (length pred)
        \<and> real (length (filter (\<lambda>(u, v). u \<noteq> v) (zip (map int pred) (elements y))))
                    / real (length pred) \<le> 1
        \<and> (elements y = map int pred \<longrightarrow> errors pred y = Inr (Num 0)))"
proof -
  let ?d = "neq (map int pred) (elements y)"
  let ?k = "real (length (filter (\<lambda>(u, v). u \<noteq> v) (zip (map int pred) (elements y))))"
  have fails: "(\<exists>e. errors pred y = Inl e) \<longleftrightarrow>
      (ndim y \<noteq> y_pred_ndim \<or> \<not> startswith (dtype y) ''int'' \<or> length (elements y) \<noteq> length pred)"
    by (simp add: errors_def)
  have valok: "errors pred y = Inr (Num (?k / real (length pred)))
        \<and> 0 \<le> ?k / real (length pred) \<and> ?k / real (length pred) \<le> 1
        \<and> (elements y = map int pred \<longrightarrow> errors pred y = Inr (Num 0))"
    if ok: "ndim y = y_pred_ndim" "startswith (dtype y) ''int''"
       "length (elements y) = length pred" "pred \<noteq> []"
  proof -
    have len: "length ?d = length pred" using ok by (simp add: length_neq)
    then have ne: "?d \<noteq> []" using ok by auto
    have "errors pred y = Inr (np_mean (map Num ?d))" using ok by (simp add: errors_def)
    also have "np_mean (map Num ?d) = Num (sum_list ?d / real (length ?d))"
      using ne by (rule np_mean_Num)
    finally have val: "errors pred y = Inr (Num (?k / real (length pred)))"
      by (simp add: len sum_list_neq_count)
    have "0 \<le> sum_list ?d \<and> sum_list ?d \<le> real (length ?d)"
      by (rule sum_list_bounds_real) (use neq_bounds in blast)
    then have b: "0 \<le> ?k \<and> ?k \<le> real (length pred)"
      by (simp add: len sum_list_neq_count)
    have pos: "0 < real (length pred)" using ok by simp
    from b pos have b1: "0 \<le> ?k / real (length pred)" by simp
    from b pos have b2: "?k / real (length pred) \<le> 1" by simp
    have "errors pred y = Inr (Num 0)" if "elements y = map int pred"
      using val that by (simp add: sum_list_neq_count[symmetric] neq_same sum_list_replicate)
    with val b1 b2 show ?thesis by blast
  qed
  from fails valok show ?thesis by blast
qed

theorem errors_cases_witness:
  "errors [0, 1] \<lparr>ndim = 1, dtype = ''int32'', elements = [0, 2]\<rparr> = Inr (Num (1 / 2))
   \<and> errors [0, 1] \<lparr>ndim = 1, dtype = ''int32'', elements = [0, 1]\<rparr> = Inr (Num 0)
   \<and> (\<exists>e. errors [0, 1] \<lparr>ndim = 2, dtype = ''int32'', elements = [0, 1]\<rparr> = Inl e)"
  using errors_cases [of "[0, 1]" "\<lparr>ndim = 1, dtype = ''int32'', elements = [0, 2]\<rparr>"]
    errors_cases [of "[0, 1]" "\<lparr>ndim = 1, dtype = ''int32'', elements = [0, 1]\<rparr>"]
    errors_cases [of "[0, 1]" "\<lparr>ndim = 2, dtype = ''int32'', elements = [0, 1]\<rparr>"]
  by (simp add: y_pred_ndim_def startswith_def)

text \<open>
  The claim C8 as stated, that \<^verbatim>\<open>errors\<close> fails exactly when the dimensions differ or the
  dtype is not an integer type, does not hold: \<^verbatim>\<open>uint8\<close> is an integer type of NumPy, and
  its name does not start with \<^verbatim>\<open>int\<close>.
\<close>

theorem errors_rejects_unsigned_integers:
  "integer_dtype ''uint8''
   \<and> ndim \<lparr>ndim = 1, dtype = ''uint8'', elements = [0]\<rparr> = y_pred_ndim
   \<and> errors [0] \<lparr>ndim = 1, dtype = ''uint8'', elements = [0]\<rparr> = Inl NotImplementedError"
  by (simp add: integer_dtype_def y_pred_ndim_def errors_def startswith_def)

subsection \<open>The training loop\<close>

lemma cost_single_context:
  assumes "list_all (\<lambda>w. w < V) ctx" "length ctx = cs" "t < V"
  shows "cost P V K cs [ctx] [t] = Inr (Num 0)"
proof -
  have p: "p_w_given_h P V K cs [ctx] = Inr (replicate V [1])"
    using assms(1,2) by (rule p_w_given_h_single_context)
  have "negative_log_likelihood (replicate V [1]) [t] = Inr (Num 0)"
    using assms(3) by (simp add: negative_log_likelihood_def p_true_def np_mean_def)
  with p show ?thesis by (simp add: cost_def)
qed

lemma example_instances: "make_instances [[''a'']] example_vocab 1 = example_set"
  by (simp add: make_instances_def windows_eq sentence_ids_def doc_words_to_ids_def
      pad_sentence_def example_vocab_def example_set_def Let_def upt_rec)

lemma example_batches_1:
  "batch_x example_set 1 0 = [[0]]" "batch_y example_set 1 0 = [2]"
  "batch_x example_set 1 (Suc 0) = [[2]]" "batch_y example_set 1 (Suc 0) = [1]"
  by (simp_all add: batch_x_def batch_y_def py_slice_def slice_positions_def slice_bound_def
      example_set_def upt_rec)

lemma example_logprob_1:
  "logprob 4 K (Suc 0) example_set 1 P 0 = Inr (Num 0)"
  "logprob 4 K (Suc 0) example_set 1 P (Suc 0) = Inr (Num 0)"
  by (simp_all add: logprob_def example_batches_1 cost_single_context)

lemma example_train_step_1:
  "train_step example_sgd r 4 K (Suc 0) example_set 1 P 0 = Inr (example_sgd r P [[0]] [2])"
  "train_step example_sgd r 4 K (Suc 0) example_set 1 P (Suc 0) = Inr (example_sgd r P [[2]] [1])"
  by (simp_all add: train_step_def example_logprob_1 example_batches_1)

lemma xrange_2: "xrange 2 = [0, Suc 0]"
  by (simp add: xrange_def upt_rec eval_nat_numeral)

lemma example_dev_logp_1:
  "compute_dev_logp (example_trainer 1 u f) P = Inr (Num 0)"
  by (simp add: compute_dev_logp_def example_trainer_def xrange_2 example_logprob_1 np_mean_def)


lemma example_lbl_trainer:
  "bs \<noteq> 0 \<Longrightarrow>
   lbl_trainer example_sgd example_vocab [[''a'']] [[''a'']] [[''a'']] 1 1 (Num 1) u 10 bs 2
       (Num (995 / 1000)) f = Inr (example_trainer bs u f)"
proof -
  assume bs: "bs \<noteq> 0"
  have v: "vocab_size example_vocab = 4" by (simp add: example_vocab_def)
  show ?thesis
    unfolding lbl_trainer_def Let_def example_instances v
    using bs by (simp add: n_batches_def example_trainer_def example_set_def)
qed

lemma checkpoint_raises:
  "checkpoint env itr st =
     (case compute_dev_logp env (params st) of
        Inl e \<Rightarrow> Inl e
      | Inr v \<Rightarrow> Inl (NameError ''n_valid_batches''))"
  by (simp add: checkpoint_def compute_dev_ppl_def validation_block_def validation_losses_def
      split: sum.splits)

lemma first_minibatch_raises:
  assumes "validation_freq env \<noteq> 0"
    and "train_model env (params st) 0 = Inr P1"
    and "compute_dev_logp env P1 = Inr v"
  shows "minibatch_step env 0 0 st = Inl (NameError ''n_valid_batches'')"
  using assms by (simp add: minibatch_step_def checkpoint_raises Let_def)

lemma xrange_pos: "1 \<le> n \<Longrightarrow> xrange n = 0 # [1..<nat n]"
  by (simp add: xrange_def upt_rec)

lemma first_checkpoint_raises:
  assumes "1 \<le> epochs env" "1 \<le> n_train_batches env" "validation_freq env \<noteq> 0"
    and "\<not> done_looping st"
    and "train_model env (params st) 0 = Inr P1"
    and "compute_dev_logp env P1 = Inr v"
  shows "train_loop env st = Inl (NameError ''n_valid_batches'')"
proof -
  have "minibatch_loop env 0 (xrange (n_train_batches env)) st = Inl (NameError ''n_valid_batches'')"
    using assms(2) first_minibatch_raises [OF assms(3,5,6)] by (simp add: xrange_pos)
  then have "epoch_loop env (xrange (epochs env)) st = Inl (NameError ''n_valid_batches'')"
    using assms(1,4) by (simp add: xrange_pos)
  then show ?thesis by (simp add: train_loop_def)
qed

text \<open>
  C1. The claim: the lines 251-253, which read the undefined names \<^verbatim>\<open>validate_model\<close>,
  \<^verbatim>\<open>n_valid_batches\<close> and \<^verbatim>\<open>numpy\<close>, are never executed. In the code they are executed at
  the first minibatch of every run: its iteration number is 0, and \<^verbatim>\<open>0 % validation_freq\<close>
  is 0. When there is an epoch, a minibatch and a validation frequency other than 0, and
  the first update and the evaluation of the dev set succeed, \<^verbatim>\<open>train_lbl\<close> ends in the
  NameError of line 251.
\<close>

theorem train_lbl_reaches_validation_block:
  assumes "lbl_trainer sgd vocab train_data dev_data test_data K c rate0 u n bs pinc thrs f = Inr env"
    and "1 \<le> epochs env" and "1 \<le> n_train_batches env" and "validation_freq env \<noteq> 0"
    and "train_model env P0 0 = Inr P1"
    and "compute_dev_logp env P1 = Inr v"
  shows "train_lbl sgd P0 vocab train_data dev_data test_data K c rate0 u n bs pat pinc thrs f =
           Inl (NameError ''n_valid_batches'')"
proof -
  have "train_loop env (initial_state P0 rate0 pat) = Inl (NameError ''n_valid_batches'')"
    by (rule first_checkpoint_raises [OF assms(2,3,4)])
       (use assms(5,6) in \<open>simp_all add: initial_state_def\<close>)
  with assms(1) show ?thesis by (simp add: train_lbl_def)
qed

theorem train_lbl_reaches_validation_block_witness:
  "train_lbl example_sgd example_params example_vocab [[''a'']] [[''a'']] [[''a'']] 1 1 (Num 1)
       ''simple'' 10 1 None 2 (Num (995 / 1000)) 1000 = Inl (NameError ''n_valid_batches'')"
proof -
  have tr: "lbl_trainer example_sgd example_vocab [[''a'']] [[''a'']] [[''a'']] 1 1 (Num 1)
       ''simple'' 10 1 2 (Num (995 / 1000)) 1000 = Inr (example_trainer 1 ''simple'' 1000)"
    by (rule example_lbl_trainer) simp
  show ?thesis
    by (rule train_lbl_reaches_validation_block [OF tr _ _ _ _ example_dev_logp_1])
       (simp_all add: example_trainer_def example_train_step_1)
qed

text \<open>
  C9. The claim: for a strategy name other than the three known ones, \<^verbatim>\<open>train_lbl\<close> raises
  the configuration error (ValueError) at the end of the first epoch. With a training set
  of at least one minibatch the first epoch does not reach its end: the run ends in the
  NameError of line 251, whatever the strategy name is.
\<close>

theorem unknown_strategy_raises_NameError:
  "train_lbl example_sgd example_params example_vocab [[''a'']] [[''a'']] [[''a'']] 1 1 (Num 1)
       ''foo'' 10 1 None 2 (Num (995 / 1000)) 1000 = Inl (NameError ''n_valid_batches'')
   \<and> Inl (NameError ''n_valid_batches'') \<noteq> (Inl ValueError :: error + lbl_params train_state)"
proof -
  have tr: "lbl_trainer example_sgd example_vocab [[''a'']] [[''a'']] [[''a'']] 1 1 (Num 1)
       ''foo'' 10 1 2 (Num (995 / 1000)) 1000 = Inr (example_trainer 1 ''foo'' 1000)"
    by (rule example_lbl_trainer) simp
  have "train_loop (example_trainer 1 ''foo'' 1000) (initial_state example_params (Num 1) None) =
          Inl (NameError ''n_valid_batches'')"
    by (rule first_checkpoint_raises [OF _ _ _ _ _ example_dev_logp_1])
       (simp_all add: example_trainer_def example_train_step_1 initial_state_def)
  with tr show ?thesis by (simp add: train_lbl_def)
qed

text \<open>
  C6. At the end of the epoch \<open>e\<close>, counted from 0: the strategy \<^verbatim>\<open>simple\<close> sets the
  learning rate to \<open>1 / (e + 1)\<close>; the strategy \<^verbatim>\<open>adaptive\<close> computes the dev perplexity,
  halves the learning rate exactly when that perplexity is greater than the one of the
  end of the previous epoch, and keeps the new perplexity for the next epoch; the strategy
  \<^verbatim>\<open>constant\<close> changes nothing.
\<close>

lemma compute_dev_ppl_rate_update [simp]:
  "compute_dev_ppl (env\<lparr>rate_update := u\<rparr>) P = compute_dev_ppl env P"
  by (simp add: compute_dev_ppl_def compute_dev_logp_def)



subsection \<open>Perplexity\<close>

lemma batch_fits:
  assumes bs: "0 < bs" and i: "i < nat (int n div bs)"
  shows "(int i + 1) * bs \<le> int n"
proof -
  from i have "int i + 1 \<le> int n div bs" by simp
  then have "(int i + 1) * bs \<le> (int n div bs) * bs" using bs by simp
  also have "\<dots> \<le> int n" using bs
    by (metis add.commute add_increasing2 div_mult_mod_eq less_imp_le mult.commute order_refl pos_mod_sign)
  finally show ?thesis .
qed

lemma cost_finite_nonneg:
  assumes x: "list_all (list_all (\<lambda>w. w < V)) x" "list_all (\<lambda>ctx. length ctx = cs) x"
    and y: "y \<noteq> []" "length y \<le> length x" "list_all (\<lambda>t. t < V) y"
  shows "\<exists>v. cost P V K cs x y = Inr (Num v) \<and> 0 \<le> v"
proof -
  let ?p = "softmax (s_wh P V K cs x)"
  have fwd: "p_w_given_h P V K cs x = Inr ?p"
    using x by (simp add: p_w_given_h_def)
  have inV: "y ! n < V" if "n < length y" for n
    using y(3) that by (simp add: list_all_length)
  have ok: "list_all (\<lambda>n. y ! n < length ?p \<and> n < length (?p ! (y ! n))) [0..<length y]"
    using inV y(2) p_w_given_h_shape(1,2)[OF fwd] by (simp add: list_all_iff)
  have le0: "\<forall>l\<in>set (map (log 2) (p_true ?p y)). l \<le> 0"
  proof
    fix l assume "l \<in> set (map (log 2) (p_true ?p y))"
    then obtain n where n: "n < length y" and l: "l = log 2 (?p ! (y ! n) ! n)"
      by (auto simp: p_true_def)
    from n y(2) have "n < length x" by simp
    with inV[OF n] have "0 < ?p ! (y ! n) ! n \<and> ?p ! (y ! n) ! n \<le> 1"
      by (rule p_w_given_h_shape(3)[OF fwd])
    then show "l \<le> 0" unfolding l by simp
  qed
  have ne: "map (log 2) (p_true ?p y) \<noteq> []" using y(1) by (simp add: p_true_def)
  have "np_mean (map (\<lambda>q. Num (log 2 q)) (p_true ?p y)) =
          Num (sum_list (map (log 2) (p_true ?p y)) / real (length y))"
    using np_mean_Num[OF ne] by (simp add: comp_def p_true_def)
  with ok fwd have "cost P V K cs x y =
      Inr (Num (- (sum_list (map (log 2) (p_true ?p y)) / real (length y))))"
    by (simp add: cost_def negative_log_likelihood_def)
  moreover have "sum_list (map (log 2) (p_true ?p y)) \<le> 0"
    using le0 by (rule sum_list_nonpos_real)
  then have "0 \<le> - (sum_list (map (log 2) (p_true ?p y)) / real (length y))"
    by (simp add: divide_nonpos_nonneg)
  ultimately show ?thesis by blast
qed

lemma eval_batches_all:
  "\<forall>i\<in>set js. \<exists>v. f i = Inr (Num v) \<and> 0 \<le> v \<Longrightarrow>
   \<exists>vs. eval_batches f js = Inr (map Num vs) \<and> list_all (\<lambda>v. 0 \<le> v) vs \<and> length vs = length js"
proof (induction js)
  case Nil
  then show ?case by simp
next
  case (Cons j js)
  then obtain v where v: "f j = Inr (Num v)" "0 \<le> v" by auto
  from Cons obtain vs where vs: "eval_batches f js = Inr (map Num vs)"
      "list_all (\<lambda>v. 0 \<le> v) vs" "length vs = length js" by auto
  have "eval_batches f (j # js) = Inr (map Num (v # vs))" using v vs by simp
  moreover have "list_all (\<lambda>v. 0 \<le> v) (v # vs)" using v vs by simp
  moreover have "length (v # vs) = length (j # js)" using vs by simp
  ultimately show ?case by blast
qed

lemma logprob_finite_nonneg:
  assumes xs: "list_all (list_all (\<lambda>w. w < V)) xs" "list_all (\<lambda>ctx. length ctx = cs) xs"
    and ys: "list_all (\<lambda>t. t < V) ys" "length ys = length xs"
    and bs: "0 < bs" and i: "i < nat (int (length xs) div bs)"
  shows "\<exists>v. logprob V K cs (xs, ys) bs P i = Inr (Num v) \<and> 0 \<le> v"
proof -
  have fit: "(int i + 1) * bs \<le> int (length xs)" using bs i by (rule batch_fits)
  have pos: "batch_positions (length xs) bs i = [i * nat bs..<(i + 1) * nat bs]"
    using bs fit by (rule batch_positions_full)
  have up: "(i + 1) * nat bs \<le> length xs"
  proof -
    have "int ((i + 1) * nat bs) = (int i + 1) * bs" using bs by (simp add: algebra_simps)
    with fit show ?thesis by linarith
  qed
  have bx: "batch_x (xs, ys) bs i = map (\<lambda>j. xs ! j) [i * nat bs..<(i + 1) * nat bs]"
    by (simp add: batch_x_positions pos)
  have by': "batch_y (xs, ys) bs i = map (\<lambda>j. ys ! j) [i * nat bs..<(i + 1) * nat bs]"
    by (simp add: batch_y_positions ys(2) pos)
  have sx: "set (batch_x (xs, ys) bs i) \<subseteq> set xs"
    unfolding bx using up by auto
  have sy: "set (batch_y (xs, ys) bs i) \<subseteq> set ys"
    unfolding by' using up ys(2) by auto
  have "\<exists>v. cost P V K cs (batch_x (xs, ys) bs i) (batch_y (xs, ys) bs i) = Inr (Num v) \<and> 0 \<le> v"
  proof (rule cost_finite_nonneg)
    show "list_all (list_all (\<lambda>w. w < V)) (batch_x (xs, ys) bs i)"
      using xs(1) sx by (auto simp: list_all_iff)
    show "list_all (\<lambda>ctx. length ctx = cs) (batch_x (xs, ys) bs i)"
      using xs(2) sx by (auto simp: list_all_iff)
    show "batch_y (xs, ys) bs i \<noteq> []"
      unfolding by' using bs by simp
    show "length (batch_y (xs, ys) bs i) \<le> length (batch_x (xs, ys) bs i)"
      unfolding bx by' by simp
    show "list_all (\<lambda>t. t < V) (batch_y (xs, ys) bs i)"
      using ys(1) sy by (auto simp: list_all_iff)
  qed
  then show ?thesis by (simp add: logprob_def)
qed

lemma lbl_batches_finite_nonneg:
  assumes "list_all (list_all (\<lambda>w. w < V)) xs" "list_all (\<lambda>ctx. length ctx = cs) xs"
    and "list_all (\<lambda>t. t < V) ys" "length ys = length xs" and "0 < bs"
  shows "\<exists>vs. eval_batches (logprob V K cs (xs, ys) bs P) (xrange (int (length xs) div bs)) =
                 Inr (map Num vs)
             \<and> list_all (\<lambda>v. 0 \<le> v) vs \<and> length vs = nat (int (length xs) div bs)"
proof -
  have "\<forall>i\<in>set (xrange (int (length xs) div bs)).
          \<exists>v. logprob V K cs (xs, ys) bs P i = Inr (Num v) \<and> 0 \<le> v"
    using logprob_finite_nonneg [OF assms] by (simp add: xrange_def)
  from eval_batches_all [OF this] show ?thesis by (simp add: xrange_def)
qed






subsection \<open>Early stopping\<close>

text \<open>
  The lines 256-272 do what their comments say: \<open>patience_check_done\<close> is the stop of lines
  270-272 and \<open>improve_patience\<close> the update of lines 257-261. No run of \<^verbatim>\<open>train_lbl\<close>
  reaches them in a state where they matter: a checkpoint never returns, the first
  minibatch is a checkpoint, and so a run that returns has trained on no minibatch, has
  not set \<^verbatim>\<open>done_looping\<close> and has not changed the patience
  (\<open>returning_run_never_stops_early\<close>).
\<close>

lemma patience_check_done:
  "done_looping (patience_check itr st) =
     (done_looping st \<or> (case patience st of None \<Rightarrow> False | Some pat \<Rightarrow> pat \<noteq> 0 \<and> pat \<le> itr))"
  by (simp add: patience_check_def split: option.splits)

lemma improve_patience:
  "improve env itr d st = Inr st' \<Longrightarrow> flt d (best_dev_ppl st) \<Longrightarrow> patience st = Some pat \<Longrightarrow>
   patience st' =
     Some (if pat \<noteq> 0 \<and> flt d (fmul (best_dev_ppl st) (improvement_thrs env))
           then max pat (itr * patience_incr env) else pat)"
  by (auto simp: improve_def Let_def split: if_splits sum.splits)

lemma checkpoint_never_returns: "checkpoint env itr st \<noteq> Inr st'"
  by (simp add: checkpoint_raises split: sum.splits)

lemma first_minibatch_never_returns: "minibatch_step env 0 0 st \<noteq> Inr st'"
  by (auto simp: minibatch_step_def Let_def checkpoint_never_returns split: sum.splits)

lemma epoch_end_keeps:
  "epoch_end env e st = Inr st' \<Longrightarrow> done_looping st' = done_looping st \<and> patience st' = patience st"
  by (auto simp: epoch_end_def split: if_splits sum.splits)

lemma epoch_loop_without_minibatches:
  "epoch_loop env es st = Inr st' \<Longrightarrow> n_train_batches env \<le> 0 \<Longrightarrow> \<not> done_looping st \<Longrightarrow>
   \<not> done_looping st' \<and> patience st' = patience st"
proof (induction es arbitrary: st)
  case Nil
  then show ?case by simp
next
  case (Cons e es)
  from Cons.prems(2) have none: "xrange (n_train_batches env) = []"
    by (simp add: xrange_def)
  from Cons.prems(1,3) none obtain st2 where
    s2: "epoch_end env e st = Inr st2" and s3: "epoch_loop env es st2 = Inr st'"
    by (auto split: sum.splits)
  from epoch_end_keeps [OF s2] Cons.prems(3)
  have k: "\<not> done_looping st2" "patience st2 = patience st" by simp_all
  from Cons.IH [OF s3 Cons.prems(2) k(1)] k(2) show ?case by simp
qed

lemma returning_run_never_stops_early:
  assumes "train_loop env st = Inr st'" "\<not> done_looping st"
  shows "n_train_batches env \<le> 0 \<and> \<not> done_looping st' \<and> patience st' = patience st"
proof -
  from assms(1) have ep: "1 \<le> epochs env"
    and loop: "epoch_loop env (xrange (epochs env)) st = Inr st'"
    by (auto simp: train_loop_def split: sum.splits if_splits)
  have none: "n_train_batches env \<le> 0"
  proof (rule ccontr)
    assume "\<not> n_train_batches env \<le> 0"
    then have nb: "1 \<le> n_train_batches env" by simp
    from loop assms(2) obtain st1 where
      "minibatch_loop env 0 (xrange (n_train_batches env)) st = Inr st1"
      by (auto simp: xrange_pos [OF ep] split: sum.splits)
    then obtain st0 where "minibatch_step env 0 0 st = Inr st0"
      by (auto simp: xrange_pos [OF nb] split: sum.splits)
    then show False by (simp add: first_minibatch_never_returns)
  qed
  from epoch_loop_without_minibatches [OF loop none assms(2)] none show ?thesis by simp
qed

text \<open>
  C7. The claim: with a patience budget \<open>P\<close>, the trainer halts once the iteration counter
  reaches \<open>P\<close>, and an improving checkpoint extends the budget to
  \<open>max(patience, itr * patience_incr)\<close>. With the budget 1, a checkpoint at every iteration
  and two minibatches per epoch, the run should stop after the iteration 1. In the code
  it ends at the iteration 0, in the NameError of line 251, before the lines 256-272.
\<close>

theorem patience_never_stops_training:
  "train_lbl example_sgd example_params example_vocab [[''a'']] [[''a'']] [[''a'']] 1 1 (Num 1)
       ''simple'' 10 1 (Some 1) 2 (Num (995 / 1000)) 1 = Inl (NameError ''n_valid_batches'')"
proof -
  have tr: "lbl_trainer example_sgd example_vocab [[''a'']] [[''a'']] [[''a'']] 1 1 (Num 1)
       ''simple'' 10 1 2 (Num (995 / 1000)) 1 = Inr (example_trainer 1 ''simple'' 1)"
    by (rule example_lbl_trainer) simp
  have "train_loop (example_trainer 1 ''simple'' 1) (initial_state example_params (Num 1) (Some 1)) =
          Inl (NameError ''n_valid_batches'')"
    by (rule first_checkpoint_raises [OF _ _ _ _ _ example_dev_logp_1])
       (simp_all add: example_trainer_def example_train_step_1 initial_state_def)
  with tr show ?thesis by (simp add: train_lbl_def)
qed

end
